theory Spec2Isabelle
  imports Main "HOL-Library.Word"
begin

unbundle bit_operations_syntax

chapter \<open>Device management of sane-airscan (airscan-device.c)\<close>

text \<open>
  A model of the device descriptor, the scan state machine, the job status and the
  frontend API of airscan-device.c, followed by the properties proved of it. A
  function of the source is a definition of the same name; a function that changes the
  device takes the descriptor and returns the new one; a function that can stop the
  process (\<open>log_assert\<close>, \<open>log_internal_error\<close>, a NULL pointer) returns a sum; a
  frontend call that can sleep on a condition variable returns an \<open>outcome\<close>. What
  the collaborators of the module do (HTTP client, event loop, protocol handlers, image
  decoder, option subsystem) enters as parameters, and the calls made to them are
  recorded in the descriptor. The device table and the endpoint prober are not
  modelled.
\<close>

section \<open>Geometrical scan parameters (device_geom_compute)\<close>

text \<open>
  \<open>SANE_Word\<close> and \<open>SANE_Fixed\<close> are C \<open>int\<close>s, of 32 bits. They are modelled
  as \<open>int\<close> with the wrap-around written out: \<open>int32 x\<close> is the value a 32-bit
  two's complement register holds for the number \<open>x\<close>, and every addition and
  subtraction of the source is followed by it. Signed overflow is undefined in C; the
  model takes the result the hardware gives.
\<close>

type_synonym SANE_Word = int
type_synonym SANE_Fixed = int

definition int32 :: "int \<Rightarrow> int" where
  "int32 x = (x + 2 ^ 31) mod 2 ^ 32 - 2 ^ 31"

text \<open>The largest value of a C \<open>int\<close>.\<close>

definition INT_MAX :: int where
  "INT_MAX = 2 ^ 31 - 1"

text \<open>C integer division truncates towards zero.\<close>

definition c_div :: "int \<Rightarrow> int \<Rightarrow> int" where
  "c_div a b = (if (a < 0) = (b < 0) then \<bar>a\<bar> div \<bar>b\<bar> else - (\<bar>a\<bar> div \<bar>b\<bar>))"

text \<open>The integer nearest to \<open>n / d\<close> (for \<open>0 < d\<close>), halves away from zero.\<close>

definition round_div :: "int \<Rightarrow> int \<Rightarrow> int" where
  "round_div n d =
     (if 0 \<le> n then (2 * n + d) div (2 * d) else - ((2 * (- n) + d) div (2 * d)))"

text \<open>
  Modelled from the spec: \<open>math_mm2px_res\<close> is declared in airscan.h, which is not
  part of the sources at hand. The spec calls it \<open>mm_to_px(mm, units)\<close>: a length in
  millimetres (a \<open>SANE_Fixed\<close>, 16 fractional bits) converted to pixels at \<open>res\<close>
  dots per inch (25.4 mm), to the nearest pixel. \<open>mm2px\<close> is that number of pixels,
  and \<open>math_mm2px_res\<close> the \<open>SANE_Word\<close> it is stored in (a count beyond the range
  of a \<open>SANE_Word\<close> wraps). The results below use only that the conversion maps 0
  to 0 and non-negative lengths to non-negative pixel counts; the concrete evaluations
  use lengths whose pixel count is exact.
\<close>

definition mm2px :: "SANE_Fixed \<Rightarrow> SANE_Word \<Rightarrow> int" where
  "mm2px mm res = round_div (mm * res * 10) (65536 * 254)"

definition math_mm2px_res :: "SANE_Fixed \<Rightarrow> SANE_Word \<Rightarrow> SANE_Word" where
  "math_mm2px_res mm res = int32 (mm2px mm res)"

text \<open>
  Modelled from the spec: \<open>math_max\<close>, \<open>math_min\<close>, \<open>math_bound\<close> and \<open>math_muldiv\<close>
  are declared in airscan.h as well. The spec writes them \<open>max(min_len,1)\<close>,
  \<open>clamp(len, lo, hi)\<close> and \<open>skip \<times> res / units\<close>. The spec does not say how the
  quotient of \<open>math_muldiv\<close> is rounded; it is truncated here. The results below use
  nothing of \<open>math_muldiv\<close> but its values at \<open>1 \<times> 300 / 300\<close> and
  \<open>1 \<times> 75 / 300\<close>, which are 1 and 0 whether the quotient is truncated or rounded
  to the nearest integer.
\<close>

definition math_max :: "int \<Rightarrow> int \<Rightarrow> int" where
  "math_max a b = (if a > b then a else b)"

definition math_min :: "int \<Rightarrow> int \<Rightarrow> int" where
  "math_min a b = (if a < b then a else b)"

definition math_bound :: "SANE_Word \<Rightarrow> SANE_Word \<Rightarrow> SANE_Word \<Rightarrow> SANE_Word" where
  "math_bound x lo hi = (if x < lo then lo else if x > hi then hi else x)"

definition math_muldiv :: "SANE_Word \<Rightarrow> SANE_Word \<Rightarrow> SANE_Word \<Rightarrow> SANE_Word" where
  "math_muldiv x mul d = int32 (c_div (x * mul) d)"

record device_geom =
  off :: SANE_Word   \<comment> \<open>requested X/Y offset, in pixels at the reference DPI\<close>
  len :: SANE_Word   \<comment> \<open>requested width/height, in pixels at the reference DPI\<close>
  skip :: SANE_Word  \<comment> \<open>pixels to skip in the returned image, at the actual resolution\<close>

definition device_geom_compute ::
  "SANE_Fixed \<Rightarrow> SANE_Fixed \<Rightarrow> SANE_Word \<Rightarrow> SANE_Word \<Rightarrow> SANE_Word \<Rightarrow> SANE_Word \<Rightarrow> device_geom"
where
  "device_geom_compute tl_mm br_mm minlen maxlen res units =
     (let geom_off = math_mm2px_res tl_mm units;
          geom_len = math_mm2px_res (int32 (br_mm - tl_mm)) units;
          geom_skip = 0;
          minlen = math_max minlen 1;
          geom_len = math_bound geom_len minlen maxlen
      in if int32 (geom_off + geom_len) > maxlen then
           (let geom_skip = int32 (int32 (geom_off + geom_len) - maxlen);
                geom_off = int32 (geom_off - geom_skip);
                geom_skip = math_muldiv geom_skip res units
            in \<lparr>off = geom_off, len = geom_len, skip = geom_skip\<rparr>)
         else \<lparr>off = geom_off, len = geom_len, skip = geom_skip\<rparr>)"

text \<open>
  The end of the requested window before the clipping, \<open>off + len\<close> in pixels at the
  reference DPI, as a number: the sum the source forms in a C \<open>int\<close>.
\<close>

definition requested_end ::
  "SANE_Fixed \<Rightarrow> SANE_Fixed \<Rightarrow> SANE_Word \<Rightarrow> SANE_Word \<Rightarrow> SANE_Word \<Rightarrow> int"
where
  "requested_end tl_mm br_mm minlen maxlen units =
     mm2px tl_mm units +
     math_bound (math_mm2px_res (int32 (br_mm - tl_mm)) units) (math_max minlen 1) maxlen"

section \<open>Device descriptor\<close>

text \<open>
  The status codes of the frontend API, \<open>SANE_Status\<close> of sane.h, in the order of
  the C enum; the spec names those this module returns.
\<close>

datatype SANE_Status =
    SANE_STATUS_GOOD
  | SANE_STATUS_UNSUPPORTED
  | SANE_STATUS_CANCELLED
  | SANE_STATUS_DEVICE_BUSY
  | SANE_STATUS_INVAL
  | SANE_STATUS_EOF
  | SANE_STATUS_JAMMED
  | SANE_STATUS_NO_DOCS
  | SANE_STATUS_COVER_OPEN
  | SANE_STATUS_IO_ERROR
  | SANE_STATUS_NO_MEM
  | SANE_STATUS_ACCESS_DENIED

datatype SANE_Frame =
  SANE_FRAME_GRAY | SANE_FRAME_RGB | SANE_FRAME_RED | SANE_FRAME_GREEN | SANE_FRAME_BLUE

type_synonym SANE_Int = int
type_synonym SANE_Byte = "8 word"

record SANE_Parameters =
  format :: SANE_Frame
  last_frame :: bool
  bytes_per_line :: SANE_Int
  pixels_per_line :: SANE_Int
  lines :: SANE_Int
  depth :: SANE_Int

text \<open>Device flags.\<close>

definition DEVICE_LISTED :: "32 word" where "DEVICE_LISTED = push_bit 0 1"
definition DEVICE_READY :: "32 word" where "DEVICE_READY = push_bit 1 1"
definition DEVICE_HALTED :: "32 word" where "DEVICE_HALTED = push_bit 2 1"
definition DEVICE_INIT_WAIT :: "32 word" where "DEVICE_INIT_WAIT = push_bit 3 1"
definition DEVICE_SCANNING :: "32 word" where "DEVICE_SCANNING = push_bit 5 1"
definition DEVICE_READING :: "32 word" where "DEVICE_READING = push_bit 6 1"

text \<open>Device state diagram.\<close>

datatype DEVICE_STM_STATE =
    DEVICE_STM_CLOSED
  | DEVICE_STM_IDLE
  | DEVICE_STM_SCANNING
  | DEVICE_STM_CANCEL_REQ
  | DEVICE_STM_CANCEL_WAIT
  | DEVICE_STM_CANCELLING
  | DEVICE_STM_CLEANUP
  | DEVICE_STM_DONE

text \<open>The value of each enumerator, for the comparisons of \<open>device_stm_state_working\<close>.\<close>

fun stm_state_value :: "DEVICE_STM_STATE \<Rightarrow> nat" where
  "stm_state_value DEVICE_STM_CLOSED = 0"
| "stm_state_value DEVICE_STM_IDLE = 1"
| "stm_state_value DEVICE_STM_SCANNING = 2"
| "stm_state_value DEVICE_STM_CANCEL_REQ = 3"
| "stm_state_value DEVICE_STM_CANCEL_WAIT = 4"
| "stm_state_value DEVICE_STM_CANCELLING = 5"
| "stm_state_value DEVICE_STM_CLEANUP = 6"
| "stm_state_value DEVICE_STM_DONE = 7"

text \<open>
  Modelled from the spec: \<open>PROTO_OP\<close> and \<open>proto_result\<close> are declared in airscan.h,
  which is not part of the sources at hand. The decoding of a reply returns "next_op,
  delay, status, payload", the payload being a job location or an encoded image. The
  enumerators are those of \<open>device_proto_op_name\<close>, the fields those
  \<open>device_stm_op_callback\<close> reads; the field \<open>next\<close> is called \<open>next_op\<close> here, as in
  the spec.
\<close>

datatype PROTO_OP =
    PROTO_OP_NONE
  | PROTO_OP_SCAN
  | PROTO_OP_LOAD
  | PROTO_OP_CHECK
  | PROTO_OP_CANCEL
  | PROTO_OP_CLEANUP
  | PROTO_OP_FINISH

type_synonym http_data = "SANE_Byte list"

record proto_result =
  next_op :: PROTO_OP                \<comment> \<open>next operation\<close>
  delay :: int                       \<comment> \<open>in seconds\<close>
  status :: SANE_Status              \<comment> \<open>job status\<close>
  err :: "string option"             \<comment> \<open>error string, may be NULL\<close>
  location :: "string option"        \<comment> \<open>data.location, may be NULL\<close>
  image :: "http_data option"        \<comment> \<open>data.image, may be NULL\<close>

text \<open>
  Modelled from the spec: \<open>devopt\<close>, \<open>devcaps_source\<close> and \<open>proto_scan_params\<close> are
  declared in airscan.h. Of the option state (capabilities, current selections,
  derived frontend parameters) the records have the fields this module reads or
  writes: \<open>caps_units\<close> is \<open>opt.caps.units\<close> and \<open>caps_src\<close> the array \<open>opt.caps.src\<close> of
  pointers (\<open>None\<close> for NULL), indexed by the source.
\<close>

record proto_scan_params =
  x_off :: SANE_Word
  y_off :: SANE_Word
  wid :: SANE_Word
  hei :: SANE_Word
  x_res :: SANE_Word
  y_res :: SANE_Word
  params_src :: nat
  params_colormode :: nat

record devcaps_source =
  min_wid_px :: SANE_Word
  max_wid_px :: SANE_Word
  min_hei_px :: SANE_Word
  max_hei_px :: SANE_Word

record devopt =
  caps_units :: SANE_Word
  caps_src :: "devcaps_source option list"
  src :: nat
  colormode :: nat
  resolution :: SANE_Word
  tl_x :: SANE_Fixed
  tl_y :: SANE_Fixed
  br_x :: SANE_Fixed
  br_y :: SANE_Fixed
  params :: SANE_Parameters

text \<open>
  Calls into the collaborators of this module (event loop, HTTP client, pollable,
  condition variable, allocator), in the order the code makes them. The list is the
  observable effect of a function besides the fields it writes.
\<close>

type_synonym eloop_event = nat
type_synonym eloop_timer = int

datatype extern_call =
    Http_client_cancel
  | Eloop_timer_cancel eloop_timer
  | Http_query_submit PROTO_OP
  | G_cond_broadcast_stm_cond
  | Pollable_signal
  | Pollable_reset
  | Eloop_event_trigger "eloop_event option"
  | Eloop_event_free "eloop_event option"
  | Eloop_timer_new int
  | Eloop_call_device_start_do
  | Device_destroyed

text \<open>
  The device descriptor. \<open>'dec\<close> is the state of the image decoder, a collaborator.
  The fields of \<open>proto_ctx\<close> are flattened (\<open>proto_ctx_location\<close>,
  \<open>proto_ctx_failed_attempt\<close>, \<open>proto_ctx_params\<close>). The name, the logging context,
  the endpoint list and \<open>checking_http_status\<close> are left out: no function modelled
  here reads them. \<open>job_images_received\<close> is an \<open>unsigned int\<close>. Two fields are
  not fields of the C struct: \<open>calls\<close> records the calls to the collaborators, and
  \<open>exchange_fails\<close> says whether the hardware, at this moment, makes a weak
  compare-and-exchange of \<open>stm_state\<close> fail although the value compared is the
  expected one (a spurious failure, as a load-linked/store-conditional pair has them).
\<close>

record 'dec device =
  refcnt :: int
  flags :: "32 word"
  opt :: devopt
  stm_state :: DEVICE_STM_STATE
  stm_cancel_event :: "eloop_event option"
  stm_timer :: "eloop_timer option"
  proto_ctx_location :: "string option"
  proto_ctx_failed_attempt :: int
  proto_ctx_params :: proto_scan_params
  proto_op_current :: PROTO_OP
  http_timer :: "eloop_timer option"
  job_status :: SANE_Status
  job_images_received :: "32 word"
  job_skip_x :: SANE_Word
  job_skip_y :: SANE_Word
  read_non_blocking :: bool
  read_decoder_jpeg :: 'dec
  read_queue :: "http_data list"
  read_image :: "http_data option"
  read_line_buf :: "SANE_Byte list option"
  read_line_num :: SANE_Int
  read_line_end :: SANE_Int
  read_line_off :: SANE_Int
  read_skip_lines :: SANE_Int
  read_skip_bytes :: SANE_Int
  calls :: "extern_call list"
  exchange_fails :: bool

definition emit :: "extern_call \<Rightarrow> 'dec device \<Rightarrow> 'dec device" where
  "emit c dev = dev\<lparr>calls := calls dev @ [c]\<rparr>"

text \<open>Ways a function stops without returning.\<close>

datatype error =
    Internal_error        \<comment> \<open>\<open>log_internal_error\<close>\<close>
  | Assertion_failed      \<comment> \<open>\<open>log_assert\<close>\<close>
  | Null_dereference      \<comment> \<open>a NULL pointer is read or written\<close>
  | Buffer_overrun        \<comment> \<open>an access outside a buffer or an array, or a negative size\<close>
  | Out_of_memory         \<comment> \<open>\<open>g_malloc\<close> of a negative size taken as a \<open>size_t\<close>\<close>

text \<open>
  The outcome of a frontend call: it returns, or the caller sleeps on \<open>stm_cond\<close>
  (\<open>eloop_cond_wait\<close>) with the device as it is then, or the process stops.
\<close>

datatype ('r, 'd) outcome = Returned 'r 'd | Waiting 'd | Crashed error

section \<open>Protocol operations and HTTP\<close>

text \<open>
  \<open>device_proto_op_submit\<close>: builds the query of the operation and submits it.
  \<open>PROTO_OP_NONE\<close> and \<open>PROTO_OP_FINISH\<close> have no query: \<open>log_internal_error\<close>.
  The queries of the protocol handler are a collaborator's; the submission is recorded.
\<close>

definition device_proto_op_submit :: "'dec device \<Rightarrow> PROTO_OP \<Rightarrow> error + 'dec device" where
  "device_proto_op_submit dev op =
     (case op of
        PROTO_OP_NONE \<Rightarrow> Inl Internal_error
      | PROTO_OP_FINISH \<Rightarrow> Inl Internal_error
      | _ \<Rightarrow> Inr (emit (Http_query_submit op) (dev\<lparr>proto_op_current := op\<rparr>)))"

text \<open>Dummy decode for \<open>PROTO_OP_CANCEL\<close> and \<open>PROTO_OP_CLEANUP\<close>: a zeroed result.\<close>

definition device_proto_dummy_decode :: proto_result where
  "device_proto_dummy_decode =
     \<lparr>next_op = PROTO_OP_FINISH, delay = 0, status = SANE_STATUS_GOOD, err = None,
      location = None, image = None\<rparr>"

text \<open>
  \<open>device_proto_op_decode\<close>: \<open>reply\<close> is what the protocol handler's decoder
  (\<open>scan_decode\<close>, \<open>load_decode\<close> or \<open>status_decode\<close>, collaborators) returns for the
  reply at hand.
\<close>

definition device_proto_op_decode ::
  "'dec device \<Rightarrow> PROTO_OP \<Rightarrow> proto_result \<Rightarrow> error + proto_result"
where
  "device_proto_op_decode dev op reply =
     (case op of
        PROTO_OP_NONE \<Rightarrow> Inl Internal_error
      | PROTO_OP_SCAN \<Rightarrow> Inr reply
      | PROTO_OP_LOAD \<Rightarrow> Inr reply
      | PROTO_OP_CHECK \<Rightarrow> Inr reply
      | PROTO_OP_CANCEL \<Rightarrow> Inr device_proto_dummy_decode
      | PROTO_OP_CLEANUP \<Rightarrow> Inr device_proto_dummy_decode
      | PROTO_OP_FINISH \<Rightarrow> Inl Internal_error)"

text \<open>Cancel pending HTTP request, if any.\<close>

definition device_http_cancel :: "'dec device \<Rightarrow> 'dec device" where
  "device_http_cancel dev =
     (let dev = emit Http_client_cancel dev
      in case http_timer dev of
           Some t \<Rightarrow> (emit (Eloop_timer_cancel t) dev)\<lparr>http_timer := None\<rparr>
         | None \<Rightarrow> dev)"

section \<open>Scan job management\<close>

text \<open>
  Set job status. \<open>http_data_queue_purge\<close> empties the queue of received images.
\<close>

definition device_job_set_status :: "'dec device \<Rightarrow> SANE_Status \<Rightarrow> 'dec device" where
  "device_job_set_status dev st =
     (if st = SANE_STATUS_GOOD then dev
      else if st \<noteq> SANE_STATUS_CANCELLED \<and> job_images_received dev > 0 then dev
      else if st \<noteq> SANE_STATUS_CANCELLED \<and> job_status dev \<noteq> SANE_STATUS_GOOD then dev
      else if st \<noteq> job_status dev then
        (let dev = dev\<lparr>job_status := st\<rparr>
         in if st = SANE_STATUS_CANCELLED then dev\<lparr>read_queue := []\<rparr> else dev)
      else dev)"

section \<open>Scan state machinery\<close>

definition device_stm_state_get :: "'dec device \<Rightarrow> DEVICE_STM_STATE" where
  "device_stm_state_get dev = stm_state dev"

text \<open>Check if device is in working state.\<close>

definition device_stm_state_working :: "'dec device \<Rightarrow> bool" where
  "device_stm_state_working dev =
     (let state = device_stm_state_get dev
      in stm_state_value state > stm_state_value DEVICE_STM_IDLE \<and>
         stm_state_value state < stm_state_value DEVICE_STM_DONE)"

definition device_stm_state_set :: "'dec device \<Rightarrow> DEVICE_STM_STATE \<Rightarrow> 'dec device" where
  "device_stm_state_set dev state =
     (if stm_state dev \<noteq> state then
        (let dev = emit G_cond_broadcast_stm_cond (dev\<lparr>stm_state := state\<rparr>)
         in if \<not> device_stm_state_working dev then emit Pollable_signal dev else dev)
      else dev)"

text \<open>Perform cancel, if possible. The result is the returned flag and the device.\<close>

definition device_stm_cancel_perform :: "'dec device \<Rightarrow> error + (bool \<times> 'dec device)" where
  "device_stm_cancel_perform dev =
     (if proto_ctx_location dev \<noteq> None then
        (let dev = device_http_cancel dev;
             dev = device_stm_state_set dev DEVICE_STM_CANCELLING
         in case device_proto_op_submit dev PROTO_OP_CANCEL of
              Inl e \<Rightarrow> Inl e
            | Inr dev \<Rightarrow> Inr (True, device_job_set_status dev SANE_STATUS_CANCELLED))
      else Inr (False, dev))"

text \<open>\<open>stm_cancel_event\<close> callback.\<close>

definition device_stm_cancel_event_callback :: "'dec device \<Rightarrow> error + 'dec device" where
  "device_stm_cancel_event_callback dev =
     (case device_stm_cancel_perform dev of
        Inl e \<Rightarrow> Inl e
      | Inr (ok, dev) \<Rightarrow>
          Inr (if \<not> ok then device_stm_state_set dev DEVICE_STM_CANCEL_WAIT else dev))"

text \<open>
  Request cancel: one \<open>__atomic_compare_exchange_n\<close> of \<open>stm_state\<close>, requested
  weak (its fourth argument is \<open>true\<close>) and not retried. A weak exchange stores the
  new value only if the state is the expected one, and it may fail although it is.
\<close>

definition device_stm_cancel_req :: "'dec device \<Rightarrow> 'dec device" where
  "device_stm_cancel_req dev =
     (let expected = DEVICE_STM_SCANNING;
          ok = (stm_state dev = expected \<and> \<not> exchange_fails dev);
          dev = (if ok then dev\<lparr>stm_state := DEVICE_STM_CANCEL_REQ\<rparr> else dev)
      in if ok then emit (Eloop_event_trigger (stm_cancel_event dev)) dev else dev)"

text \<open>\<open>stm_timer\<close> callback.\<close>

definition device_stm_timer_callback :: "'dec device \<Rightarrow> error + 'dec device" where
  "device_stm_timer_callback dev = device_proto_op_submit dev (proto_op_current dev)"

text \<open>
  Operation callback. \<open>device_stm_op_save\<close> is its first part, "save useful result, if
  any"; \<open>g_free\<close> of the old location leaves no trace in the model.
\<close>

definition device_stm_op_save :: "'dec device \<Rightarrow> proto_result \<Rightarrow> 'dec device" where
  "device_stm_op_save dev result =
     (if proto_op_current dev = PROTO_OP_SCAN then
        (case location result of
           Some l \<Rightarrow>
             emit G_cond_broadcast_stm_cond
               (dev\<lparr>proto_ctx_location := Some l, proto_ctx_failed_attempt := 0\<rparr>)
         | None \<Rightarrow> dev)
      else if proto_op_current dev = PROTO_OP_LOAD then
        (case image result of
           Some img \<Rightarrow>
             (let dev = dev\<lparr>read_queue := read_queue dev @ [img]\<rparr>;
                  dev = dev\<lparr>job_images_received := job_images_received dev + 1\<rparr>;
                  dev = emit Pollable_signal dev;
                  dev = dev\<lparr>proto_ctx_failed_attempt := 0\<rparr>
              in emit G_cond_broadcast_stm_cond dev)
         | None \<Rightarrow> dev)
      else dev)"

definition device_stm_op_callback :: "'dec device \<Rightarrow> proto_result \<Rightarrow> error + 'dec device" where
  "device_stm_op_callback dev reply =
     (case device_proto_op_decode dev (proto_op_current dev) reply of
        Inl e \<Rightarrow> Inl e
      | Inr result \<Rightarrow>
          (let dev = device_stm_op_save dev result;
               dev = device_job_set_status dev (status result)
           in if next_op result = PROTO_OP_FINISH then
                (let dev = (if job_images_received dev = 0
                            then device_job_set_status dev SANE_STATUS_IO_ERROR else dev)
                 in Inr (device_stm_state_set dev DEVICE_STM_DONE))
              else if device_stm_state_get dev = DEVICE_STM_CANCEL_WAIT then
                (case device_stm_cancel_perform dev of
                   Inl e \<Rightarrow> Inl e
                 | Inr (ok, dev) \<Rightarrow>
                     Inr (if \<not> ok then device_stm_state_set dev DEVICE_STM_DONE else dev))
              else
                (let dev = (if next_op result = PROTO_OP_CANCEL
                              then device_stm_state_set dev DEVICE_STM_CANCELLING
                            else if next_op result = PROTO_OP_CLEANUP
                              then device_stm_state_set dev DEVICE_STM_CLEANUP
                            else dev)
                 in if delay result \<noteq> 0 then
                      (if stm_timer dev \<noteq> None then Inl Assertion_failed
                       else Inr ((emit (Eloop_timer_new (delay result)) dev)
                                   \<lparr>stm_timer := Some (delay result),
                                    proto_op_current := next_op result\<rparr>))
                    else device_proto_op_submit dev (next_op result))))"

text \<open>
  Request scan. \<open>src\<close> is a pointer taken from the array of the capabilities; it
  is dereferenced unchecked.
\<close>

definition device_stm_start_scan :: "'dec device \<Rightarrow> error + 'dec device" where
  "device_stm_start_scan dev =
     (if src (opt dev) \<ge> length (caps_src (opt dev)) then Inl Buffer_overrun
      else case caps_src (opt dev) ! src (opt dev) of
        None \<Rightarrow> Inl Null_dereference
      | Some source \<Rightarrow>
          (let x_resolution = resolution (opt dev);
               y_resolution = resolution (opt dev);
               geom_x = device_geom_compute (tl_x (opt dev)) (br_x (opt dev))
                          (min_wid_px source) (max_wid_px source) x_resolution
                          (caps_units (opt dev));
               geom_y = device_geom_compute (tl_y (opt dev)) (br_y (opt dev))
                          (min_hei_px source) (max_hei_px source) y_resolution
                          (caps_units (opt dev));
               dev = dev\<lparr>job_skip_x := skip geom_x, job_skip_y := skip geom_y\<rparr>;
               dev = dev\<lparr>proto_ctx_params :=
                       \<lparr>x_off = off geom_x, y_off = off geom_y,
                        wid = len geom_x, hei = len geom_y,
                        x_res = x_resolution, y_res = y_resolution,
                        params_src = src (opt dev),
                        params_colormode = colormode (opt dev)\<rparr>\<rparr>;
               dev = device_stm_state_set dev DEVICE_STM_SCANNING
           in device_proto_op_submit dev PROTO_OP_SCAN))"

text \<open>http_client onerror callback.\<close>

definition device_http_onerror :: "'dec device \<Rightarrow> error + 'dec device" where
  "device_http_onerror dev =
     (let dev = device_job_set_status dev SANE_STATUS_IO_ERROR
      in case device_stm_cancel_perform dev of
           Inl e \<Rightarrow> Inl e
         | Inr (ok, dev) \<Rightarrow>
             Inr (if \<not> ok then device_stm_state_set dev DEVICE_STM_DONE else dev))"

section \<open>API helpers and the frontend API\<close>

definition device_ref :: "'dec device \<Rightarrow> 'dec device" where
  "device_ref dev = dev\<lparr>refcnt := refcnt dev + 1\<rparr>"

text \<open>Unref the device. At zero the descriptor and all it owns are released.\<close>

definition device_unref :: "'dec device \<Rightarrow> error + 'dec device" where
  "device_unref dev =
     (let dev = dev\<lparr>refcnt := refcnt dev - 1\<rparr>
      in if refcnt dev = 0 then
           (if flags dev AND DEVICE_LISTED \<noteq> 0 then Inl Assertion_failed
            else if flags dev AND DEVICE_HALTED = 0 then Inl Assertion_failed
            else if device_stm_state_get dev \<noteq> DEVICE_STM_CLOSED then Inl Assertion_failed
            else Inr (emit Device_destroyed dev))
         else Inr dev)"

text \<open>
  Open a device. \<open>selected\<close> is the device the lookup in the device table yields
  (\<open>device_find\<close>, or the first ready device; \<open>None\<close> for NULL) once
  \<open>device_list_sync\<close> has returned, and \<open>ev\<close> what \<open>eloop_event_new\<close> returns. The
  result is the status and the selected device after the call; \<open>*out\<close> is that device
  when the status is good, and NULL otherwise.
\<close>

definition device_open ::
  "'dec device option \<Rightarrow> eloop_event option \<Rightarrow> SANE_Status \<times> 'dec device option"
where
  "device_open selected ev =
     (case selected of
        None \<Rightarrow> (SANE_STATUS_INVAL, None)
      | Some dev \<Rightarrow>
          if flags dev AND DEVICE_READY = 0 then (SANE_STATUS_INVAL, Some dev)
          else if device_stm_state_get dev \<noteq> DEVICE_STM_CLOSED
            then (SANE_STATUS_DEVICE_BUSY, Some dev)
          else
            (let dev = dev\<lparr>stm_cancel_event := ev\<rparr>
             in if stm_cancel_event dev = None then (SANE_STATUS_NO_MEM, Some dev)
                else (SANE_STATUS_GOOD,
                      Some (device_ref (device_stm_state_set dev DEVICE_STM_IDLE)))))"

text \<open>Wait until device leaves the working state.\<close>

definition device_stm_wait_while_working :: "'dec device \<Rightarrow> (unit, 'dec device) outcome" where
  "device_stm_wait_while_working dev =
     (if device_stm_state_working dev then Waiting dev else Returned () dev)"

text \<open>Cancel scanning and wait until device leaves the working state.\<close>

definition device_stm_cancel_wait :: "'dec device \<Rightarrow> (unit, 'dec device) outcome" where
  "device_stm_cancel_wait dev = device_stm_wait_while_working (device_stm_cancel_req dev)"

text \<open>
  Close the device. \<open>device_close_finish\<close> is the part after the wait, and
  \<open>device_close_wait\<close> is where a caller that slept in
  \<open>device_stm_wait_while_working\<close> goes on when it is woken.
\<close>

definition device_close_finish :: "'dec device \<Rightarrow> (unit, 'dec device) outcome" where
  "device_close_finish dev =
     (let dev = emit (Eloop_event_free (stm_cancel_event dev)) dev;
          dev = dev\<lparr>stm_cancel_event := None\<rparr>;
          dev = device_stm_state_set dev DEVICE_STM_CLOSED
      in case device_unref dev of Inl e \<Rightarrow> Crashed e | Inr dev \<Rightarrow> Returned () dev)"

definition device_close_wait :: "'dec device \<Rightarrow> (unit, 'dec device) outcome" where
  "device_close_wait dev =
     (case device_stm_wait_while_working dev of
        Returned _ dev \<Rightarrow> device_close_finish dev
      | Waiting dev \<Rightarrow> Waiting dev
      | Crashed e \<Rightarrow> Crashed e)"

definition device_close :: "'dec device \<Rightarrow> (unit, 'dec device) outcome" where
  "device_close dev =
     (if device_stm_state_get dev \<noteq> DEVICE_STM_CLOSED then
        (if device_stm_state_working dev then
           (case device_stm_cancel_wait dev of
              Returned _ dev \<Rightarrow> device_close_finish dev
            | Waiting dev \<Rightarrow> Waiting dev
            | Crashed e \<Rightarrow> Crashed e)
         else device_close_finish dev)
      else Returned () dev)"

text \<open>Start scanning operation - runs on a context of event loop thread.\<close>

definition device_start_do :: "'dec device \<Rightarrow> error + 'dec device" where
  "device_start_do dev = device_stm_start_scan dev"

text \<open>
  Start scanning operation. \<open>device_start_job\<close> is the function from its second loop
  on (a caller woken there goes on with it), \<open>device_start_sync\<close> from its first loop
  on.
\<close>

definition device_start_job :: "'dec device \<Rightarrow> (SANE_Status, 'dec device) outcome" where
  "device_start_job dev =
     (if device_stm_state_get dev = DEVICE_STM_IDLE then Waiting dev
      else Returned SANE_STATUS_GOOD (dev\<lparr>flags := flags dev OR DEVICE_READING\<rparr>))"

definition device_start_sync :: "'dec device \<Rightarrow> (SANE_Status, 'dec device) outcome" where
  "device_start_sync dev =
     (if device_stm_state_working dev \<and> length (read_queue dev) = 0 then Waiting dev
      else if length (read_queue dev) > 0 then
        Returned SANE_STATUS_GOOD (dev\<lparr>flags := flags dev OR DEVICE_READING\<rparr>)
      else
        (let dev = device_stm_state_set dev DEVICE_STM_IDLE;
             dev = dev\<lparr>job_status := SANE_STATUS_GOOD\<rparr>;
             dev = dev\<lparr>proto_ctx_location := None\<rparr>;
             dev = dev\<lparr>proto_ctx_failed_attempt := 0\<rparr>;
             dev = dev\<lparr>job_images_received := 0\<rparr>;
             dev = emit Eloop_call_device_start_do dev
         in device_start_job dev))"

definition device_start :: "'dec device \<Rightarrow> (SANE_Status, 'dec device) outcome" where
  "device_start dev =
     (if flags dev AND DEVICE_SCANNING \<noteq> 0 then Returned SANE_STATUS_INVAL dev
      else if lines (params (opt dev)) = 0 \<or> pixels_per_line (params (opt dev)) = 0
        then Returned SANE_STATUS_INVAL dev
      else
        (let dev = dev\<lparr>flags := flags dev OR DEVICE_SCANNING\<rparr>;
             dev = emit Pollable_reset dev;
             dev = dev\<lparr>read_non_blocking := False\<rparr>
         in device_start_sync dev))"

text \<open>Cancel scanning operation.\<close>

definition device_cancel :: "'dec device \<Rightarrow> 'dec device" where
  "device_cancel dev = device_stm_cancel_req dev"

text \<open>Set I/O mode.\<close>

definition device_set_io_mode :: "'dec device \<Rightarrow> bool \<Rightarrow> SANE_Status \<times> 'dec device" where
  "device_set_io_mode dev non_blocking =
     (if flags dev AND DEVICE_SCANNING = 0 then (SANE_STATUS_INVAL, dev)
      else (SANE_STATUS_GOOD, dev\<lparr>read_non_blocking := non_blocking\<rparr>))"

text \<open>
  Set device option: rejected while scanning; otherwise \<open>devopt_set_option\<close>, a
  collaborator, whose result (the status and the options as it leaves them) is
  \<open>changed\<close>.
\<close>

definition device_set_option ::
  "'dec device \<Rightarrow> SANE_Status \<times> devopt \<Rightarrow> SANE_Status \<times> 'dec device"
where
  "device_set_option dev changed =
     (if flags dev AND DEVICE_SCANNING \<noteq> 0 then (SANE_STATUS_INVAL, dev)
      else (fst changed, dev\<lparr>opt := snd changed\<rparr>))"

section \<open>Read machinery\<close>

text \<open>
  The image decoder is a collaborator: its operations are parameters, over a decoder
  state \<open>'dec\<close>. An operation that can fail returns the error string (\<open>None\<close> for
  NULL). \<open>image_decoder_set_window\<close> returns the window as the decoder adjusted it,
  \<open>image_decoder_read_line\<close> the bytes it wrote to the start of the buffer.
\<close>

record image_window =
  win_x_off :: int
  win_y_off :: int
  win_wid :: int
  win_hei :: int

record 'dec image_decoder_ops =
  image_decoder_begin :: "'dec \<Rightarrow> http_data \<Rightarrow> string option \<times> 'dec"
  image_decoder_get_params :: "'dec \<Rightarrow> SANE_Parameters"
  image_decoder_get_bytes_per_pixel :: "'dec \<Rightarrow> int"
  image_decoder_set_window :: "'dec \<Rightarrow> image_window \<Rightarrow> string option \<times> image_window \<times> 'dec"
  image_decoder_read_line :: "'dec \<Rightarrow> string option \<times> SANE_Byte list \<times> 'dec"
  image_decoder_reset :: "'dec \<Rightarrow> 'dec"

text \<open>
  Pull next image from the read queue and start decoding. \<open>device_read_next_failed\<close>
  is the exit with an error (the image is released), \<open>device_read_next_init\<close> the
  part "initialize image decoding".
\<close>

definition device_read_next_failed :: "'dec device \<Rightarrow> SANE_Status \<times> 'dec device" where
  "device_read_next_failed dev = (SANE_STATUS_IO_ERROR, dev\<lparr>read_image := None\<rparr>)"

definition device_read_next_init ::
  "'dec device \<Rightarrow> int \<Rightarrow> int \<Rightarrow> error + (SANE_Status \<times> 'dec device)"
where
  "device_read_next_init dev h line_capacity =
     (if line_capacity < 0 then Inl Out_of_memory
      else
        (let dev = dev\<lparr>read_line_buf := Some (replicate (nat line_capacity) 255)\<rparr>;
             dev = dev\<lparr>read_line_num := 0\<rparr>;
             dev = dev\<lparr>read_line_off := bytes_per_line (params (opt dev))\<rparr>;
             dev = dev\<lparr>read_line_end := h - read_skip_lines dev\<rparr>
         in Inr (SANE_STATUS_GOOD, emit Pollable_signal dev)))"

definition device_read_next ::
  "'dec image_decoder_ops \<Rightarrow> 'dec device \<Rightarrow> error + (SANE_Status \<times> 'dec device)"
where
  "device_read_next ops dev =
     (case read_queue dev of
        [] \<Rightarrow> Inr (SANE_STATUS_EOF, dev\<lparr>read_image := None\<rparr>)
      | img # rest \<Rightarrow>
          (let dev = dev\<lparr>read_image := Some img, read_queue := rest\<rparr>;
               begun = image_decoder_begin ops (read_decoder_jpeg dev) img;
               dev = dev\<lparr>read_decoder_jpeg := snd begun\<rparr>
           in if fst begun \<noteq> None then Inr (device_read_next_failed dev)
              else
                (let ps = image_decoder_get_params ops (read_decoder_jpeg dev)
                 in if format ps \<noteq> format (params (opt dev))
                    then Inr (device_read_next_failed dev)
                    else
                      (let w = pixels_per_line ps;
                           h = lines ps
                       in if job_skip_x dev \<ge> w \<or> job_skip_y dev \<ge> h then
                            device_read_next_init
                              (dev\<lparr>read_skip_lines := h, read_skip_bytes := 0\<rparr>) h
                              (bytes_per_line (params (opt dev)))
                          else
                            (let bpp = image_decoder_get_bytes_per_pixel ops
                                         (read_decoder_jpeg dev);
                                 win = \<lparr>win_x_off = job_skip_x dev,
                                        win_y_off = job_skip_y dev,
                                        win_wid = w - job_skip_x dev,
                                        win_hei = h - job_skip_y dev\<rparr>;
                                 windowed = image_decoder_set_window ops
                                              (read_decoder_jpeg dev) win;
                                 win = fst (snd windowed);
                                 dev = dev\<lparr>read_decoder_jpeg := snd (snd windowed)\<rparr>
                             in if fst windowed \<noteq> None
                                then Inr (device_read_next_failed dev)
                                else
                                  (let dev = dev\<lparr>read_skip_bytes := 0\<rparr>;
                                       dev = (if win_x_off win \<noteq> job_skip_x dev
                                              then dev\<lparr>read_skip_bytes :=
                                                     bpp * (job_skip_x dev - win_x_off win)\<rparr>
                                              else dev);
                                       dev = dev\<lparr>read_skip_lines := 0\<rparr>;
                                       dev = (if win_y_off win \<noteq> job_skip_y dev
                                              then dev\<lparr>read_skip_lines :=
                                                     job_skip_y dev - win_y_off win\<rparr>
                                              else dev)
                                   in device_read_next_init dev h
                                        (math_max (bytes_per_line (params (opt dev)))
                                           (w * bpp))))))))"

text \<open>
  Decode next image line. The line buffer is a list; a write of \<open>n\<close> bytes at its
  start needs a buffer and \<open>n\<close> within its capacity.
\<close>

definition line_buf_write ::
  "SANE_Byte list option \<Rightarrow> SANE_Byte list \<Rightarrow> error + SANE_Byte list"
where
  "line_buf_write buf bytes =
     (case buf of
        None \<Rightarrow> Inl Null_dereference
      | Some b \<Rightarrow>
          if length bytes > length b then Inl Buffer_overrun
          else Inr (bytes @ drop (length bytes) b))"

definition device_read_decode_line ::
  "'dec image_decoder_ops \<Rightarrow> 'dec device \<Rightarrow> error + (SANE_Status \<times> 'dec device)"
where
  "device_read_decode_line ops dev =
     (let n = read_line_num dev
      in if n = lines (params (opt dev)) then Inr (SANE_STATUS_EOF, dev)
         else
           (let filled =
                  (if n < read_skip_lines dev \<or> n \<ge> read_line_end dev then
                     (if bytes_per_line (params (opt dev)) < 0 then Inl Buffer_overrun
                      else
                        (case line_buf_write (read_line_buf dev)
                                (replicate (nat (bytes_per_line (params (opt dev)))) 255) of
                           Inl e \<Rightarrow> Inl e
                         | Inr b \<Rightarrow> Inr (None, dev\<lparr>read_line_buf := Some b\<rparr>)))
                   else
                     (let decoded = image_decoder_read_line ops (read_decoder_jpeg dev);
                          dev = dev\<lparr>read_decoder_jpeg := snd (snd decoded)\<rparr>
                      in case line_buf_write (read_line_buf dev) (fst (snd decoded)) of
                           Inl e \<Rightarrow> Inl e
                         | Inr b \<Rightarrow> Inr (fst decoded, dev\<lparr>read_line_buf := Some b\<rparr>)))
            in case filled of
                 Inl e \<Rightarrow> Inl e
               | Inr (Some e, dev) \<Rightarrow> Inr (SANE_STATUS_IO_ERROR, dev)
               | Inr (None, dev) \<Rightarrow>
                   Inr (SANE_STATUS_GOOD,
                        dev\<lparr>read_line_off := read_skip_bytes dev,
                            read_line_num := read_line_num dev + 1\<rparr>)))"

text \<open>
  The loop "read line by line" of \<open>device_read\<close>: \<open>out\<close> is what has been copied to
  the caller's buffer so far and \<open>n\<close> its length (\<open>len\<close> in the source). The loop
  need not end (a line offset that stays at \<open>bytes_per_line\<close> with a line number
  that never meets \<open>lines\<close>), hence the result is an option.
\<close>

partial_function (option) device_read_loop ::
  "'dec image_decoder_ops \<Rightarrow> 'dec device \<Rightarrow> SANE_Byte list \<Rightarrow> SANE_Int \<Rightarrow> SANE_Int \<Rightarrow>
     SANE_Status \<Rightarrow> (error + (SANE_Status \<times> SANE_Int \<times> SANE_Byte list \<times> 'dec device)) option"
where
  "device_read_loop ops dev out max_len n st =
     (if st = SANE_STATUS_GOOD \<and> n < max_len then
        (if read_line_off dev = bytes_per_line (params (opt dev)) then
           (case device_read_decode_line ops dev of
              Inl e \<Rightarrow> Some (Inl e)
            | Inr r \<Rightarrow> device_read_loop ops (snd r) out max_len n (fst r))
         else
           (let sz = math_min (max_len - n)
                       (bytes_per_line (params (opt dev)) - read_line_off dev)
            in case read_line_buf dev of
                 None \<Rightarrow> Some (Inl Null_dereference)
               | Some buf \<Rightarrow>
                   if sz < 0 \<or> read_line_off dev < 0 \<or>
                      nat (read_line_off dev + sz) > length buf
                   then Some (Inl Buffer_overrun)
                   else device_read_loop ops
                          (dev\<lparr>read_line_off := read_line_off dev + sz\<rparr>)
                          (out @ take (nat sz) (drop (nat (read_line_off dev)) buf))
                          max_len (n + sz) st))
      else Some (Inr (st, n, out, dev)))"

declare device_read_loop.simps [code]

text \<open>
  Read scanned image: the label \<open>DONE\<close> ("cleanup and exit"). The result is the
  status, \<open>*len_out\<close> and the caller's buffer.
\<close>

definition device_read_done ::
  "'dec image_decoder_ops \<Rightarrow> 'dec device \<Rightarrow> SANE_Status \<Rightarrow> SANE_Int \<Rightarrow> SANE_Byte list \<Rightarrow>
     (SANE_Status \<times> SANE_Int \<times> SANE_Byte list, 'dec device) outcome"
where
  "device_read_done ops dev st n data =
     (let st = (if st = SANE_STATUS_EOF \<and> n > 0 then SANE_STATUS_GOOD else st)
      in if st = SANE_STATUS_GOOD then Returned (SANE_STATUS_GOOD, n, data) dev
         else
           (let dev = dev\<lparr>flags := flags dev AND NOT (DEVICE_SCANNING OR DEVICE_READING)\<rparr>;
                dev = dev\<lparr>read_decoder_jpeg :=
                        image_decoder_reset ops (read_decoder_jpeg dev)\<rparr>;
                dev = (if read_image dev \<noteq> None then dev\<lparr>read_image := None\<rparr> else dev);
                dev = dev\<lparr>read_line_buf := None\<rparr>;
                dev = (if device_stm_state_get dev = DEVICE_STM_DONE \<and>
                          length (read_queue dev) = 0
                       then device_stm_state_set dev DEVICE_STM_IDLE else dev)
            in Returned (st, 0, data) dev))"

text \<open>The loop and what follows it.\<close>

definition device_read_lines ::
  "'dec image_decoder_ops \<Rightarrow> 'dec device \<Rightarrow> SANE_Byte list \<Rightarrow> SANE_Int \<Rightarrow>
     (SANE_Status \<times> SANE_Int \<times> SANE_Byte list, 'dec device) outcome option"
where
  "device_read_lines ops dev data max_len =
     (case device_read_loop ops dev [] max_len 0 SANE_STATUS_GOOD of
        None \<Rightarrow> None
      | Some (Inl e) \<Rightarrow> Some (Crashed e)
      | Some (Inr (st, n, out, dev)) \<Rightarrow>
          (let dev = (if st = SANE_STATUS_IO_ERROR
                      then device_cancel (device_job_set_status dev SANE_STATUS_IO_ERROR)
                      else dev)
           in Some (device_read_done ops dev st n (out @ drop (length out) data))))"

text \<open>
  \<open>device_read\<close> from "wait until device is ready" on; a caller woken from
  \<open>eloop_cond_wait\<close> goes on here.
\<close>

definition device_read_wait ::
  "'dec image_decoder_ops \<Rightarrow> 'dec device \<Rightarrow> SANE_Byte list \<Rightarrow> SANE_Int \<Rightarrow>
     (SANE_Status \<times> SANE_Int \<times> SANE_Byte list, 'dec device) outcome option"
where
  "device_read_wait ops dev data max_len =
     (if read_image dev = None then
        (if device_stm_state_working dev \<and> read_queue dev = [] then
           (if read_non_blocking dev then Some (Returned (SANE_STATUS_GOOD, 0, data) dev)
            else Some (Waiting dev))
         else if job_status dev = SANE_STATUS_CANCELLED then
           Some (device_read_done ops dev SANE_STATUS_CANCELLED 0 data)
         else if read_queue dev = [] then
           (if job_status dev = SANE_STATUS_GOOD then Some (Crashed Assertion_failed)
            else Some (device_read_done ops dev (job_status dev) 0 data))
         else
           (case device_read_next ops dev of
              Inl e \<Rightarrow> Some (Crashed e)
            | Inr (st, dev) \<Rightarrow>
                if st \<noteq> SANE_STATUS_GOOD then Some (device_read_done ops dev st 0 data)
                else device_read_lines ops dev data max_len))
      else device_read_lines ops dev data max_len)"

text \<open>
  Read scanned image. \<open>data\<close> is the caller's buffer, of \<open>max_len\<close> bytes at least;
  \<open>len_out\<close> is the pointer of that name: \<open>None\<close> for NULL, \<open>Some v\<close> for a pointer
  to an integer that holds \<open>v\<close>. The first statement of the function stores 0
  through it.
\<close>

definition device_read ::
  "'dec image_decoder_ops \<Rightarrow> 'dec device \<Rightarrow> SANE_Byte list \<Rightarrow> SANE_Int \<Rightarrow> SANE_Int option \<Rightarrow>
     (SANE_Status \<times> SANE_Int \<times> SANE_Byte list, 'dec device) outcome option"
where
  "device_read ops dev data max_len len_out =
     (if len_out = None then Some (Crashed Null_dereference)
      else if flags dev AND DEVICE_READING = 0
        then Some (Returned (SANE_STATUS_INVAL, 0, data) dev)
      else if len_out = None
        then Some (Returned (SANE_STATUS_INVAL, 0, data) dev)
      else device_read_wait ops dev data max_len)"

section \<open>Runs of a device\<close>

text \<open>
  The descriptor \<open>device_add\<close> creates: \<open>g_new0\<close> zeroes every field, then the
  reference count, the flags, the options (\<open>devopt_init\<close>), the decoder and the queue
  are set.
\<close>

definition device_add_new :: "'dec \<Rightarrow> devopt \<Rightarrow> 'dec device" where
  "device_add_new dec options =
     \<lparr>refcnt = 1,
      flags = DEVICE_LISTED OR DEVICE_INIT_WAIT,
      opt = options,
      stm_state = DEVICE_STM_CLOSED,
      stm_cancel_event = None,
      stm_timer = None,
      proto_ctx_location = None,
      proto_ctx_failed_attempt = 0,
      proto_ctx_params =
        \<lparr>x_off = 0, y_off = 0, wid = 0, hei = 0, x_res = 0, y_res = 0,
         params_src = 0, params_colormode = 0\<rparr>,
      proto_op_current = PROTO_OP_NONE,
      http_timer = None,
      job_status = SANE_STATUS_GOOD,
      job_images_received = 0,
      job_skip_x = 0,
      job_skip_y = 0,
      read_non_blocking = False,
      read_decoder_jpeg = dec,
      read_queue = [],
      read_image = None,
      read_line_buf = None,
      read_line_num = 0,
      read_line_end = 0,
      read_line_off = 0,
      read_skip_lines = 0,
      read_skip_bytes = 0,
      calls = [],
      exchange_fails = False\<rparr>"

text \<open>
  What happens to a device, one entry per call: the frontend API (with the points
  where a sleeping caller goes on), and the callbacks the event loop delivers.
  \<open>Capabilities_ok\<close> is the success branch of
  \<open>device_scanner_capabilities_callback\<close>, which sets the options and the flags.
  \<open>Exchange_fails\<close> is the hardware: from then on a weak compare-and-exchange fails
  spuriously, or no longer does.
\<close>

datatype action =
    Capabilities_ok devopt
  | Open "eloop_event option"
  | Close
  | Close_woken
  | Set_option "SANE_Status \<times> devopt"
  | Start
  | Start_woken_sync
  | Start_woken_job
  | Start_do
  | Cancel
  | Set_io_mode bool
  | Read "SANE_Byte list" SANE_Int "SANE_Int option"
  | Read_woken "SANE_Byte list" SANE_Int
  | Op_reply proto_result
  | Timer
  | Cancel_event
  | Http_error
  | Exchange_fails bool

fun outcome_device :: "('r, 'd) outcome \<Rightarrow> 'd option" where
  "outcome_device (Returned r d) = Some d"
| "outcome_device (Waiting d) = Some d"
| "outcome_device (Crashed e) = None"

fun result_device :: "error + 'd \<Rightarrow> 'd option" where
  "result_device (Inl e) = None"
| "result_device (Inr d) = Some d"

text \<open>The device after an action; \<open>None\<close> when the process stops or the call never returns.\<close>

fun device_step :: "'dec image_decoder_ops \<Rightarrow> 'dec device \<Rightarrow> action \<Rightarrow> 'dec device option" where
  "device_step ops dev (Capabilities_ok options) =
     Some (dev\<lparr>opt := options,
               flags := (flags dev OR DEVICE_READY) AND NOT DEVICE_INIT_WAIT\<rparr>)"
| "device_step ops dev (Open ev) = snd (device_open (Some dev) ev)"
| "device_step ops dev Close = outcome_device (device_close dev)"
| "device_step ops dev Close_woken = outcome_device (device_close_wait dev)"
| "device_step ops dev (Set_option changed) = Some (snd (device_set_option dev changed))"
| "device_step ops dev Start = outcome_device (device_start dev)"
| "device_step ops dev Start_woken_sync = outcome_device (device_start_sync dev)"
| "device_step ops dev Start_woken_job = outcome_device (device_start_job dev)"
| "device_step ops dev Start_do = result_device (device_start_do dev)"
| "device_step ops dev Cancel = Some (device_cancel dev)"
| "device_step ops dev (Set_io_mode b) = Some (snd (device_set_io_mode dev b))"
| "device_step ops dev (Read data max_len len_out) =
     (case device_read ops dev data max_len len_out of
        None \<Rightarrow> None | Some r \<Rightarrow> outcome_device r)"
| "device_step ops dev (Read_woken data max_len) =
     (case device_read_wait ops dev data max_len of
        None \<Rightarrow> None | Some r \<Rightarrow> outcome_device r)"
| "device_step ops dev (Op_reply reply) = result_device (device_stm_op_callback dev reply)"
| "device_step ops dev Timer = result_device (device_stm_timer_callback dev)"
| "device_step ops dev Cancel_event = result_device (device_stm_cancel_event_callback dev)"
| "device_step ops dev Http_error = result_device (device_http_onerror dev)"
| "device_step ops dev (Exchange_fails b) = Some (dev\<lparr>exchange_fails := b\<rparr>)"

fun device_run ::
  "'dec image_decoder_ops \<Rightarrow> 'dec device \<Rightarrow> action list \<Rightarrow> 'dec device option"
where
  "device_run ops dev [] = Some dev"
| "device_run ops dev (a # as) =
     (case device_step ops dev a of
        None \<Rightarrow> None
      | Some dev' \<Rightarrow> device_run ops dev' as)"

text \<open>
  What the collaborators are taken to do in a run. A protocol decoder reports the
  outcome of a request, an error of the device or of the transfer, and not
  \<open>SANE_STATUS_CANCELLED\<close>: that is the status of a job the frontend has cancelled,
  and this module sets it itself, in \<open>device_stm_cancel_perform\<close>. The event loop
  runs \<open>device_start_do\<close>, which has no other caller, when \<open>device_start\<close> has
  scheduled it with \<open>eloop_call\<close>, before the device calls a collaborator again. An
  action is expected when it meets these two conditions, and a run is \<open>regular\<close> when
  each of its actions is expected in the state it happens in.
\<close>

definition start_do_scheduled :: "'dec device \<Rightarrow> bool" where
  "start_do_scheduled dev =
     (calls dev \<noteq> [] \<and> last (calls dev) = Eloop_call_device_start_do)"




text \<open>
  What holds of a cancelled job besides: the operation in progress is
  \<open>PROTO_OP_CANCEL\<close>, whose reply carries no image, and no start is pending.
  \<open>job_frame dev dev'\<close> relates a device to a later one when the job status and the
  operation are the same, the queue has not grown from empty and no start has been
  scheduled in between.
\<close>

definition cancelled_settled :: "'dec device \<Rightarrow> bool" where
  "cancelled_settled dev =
     (job_status dev = SANE_STATUS_CANCELLED \<longrightarrow>
        read_queue dev = [] \<and> proto_op_current dev = PROTO_OP_CANCEL \<and>
        \<not> start_do_scheduled dev)"

definition job_frame :: "'dec device \<Rightarrow> 'dec device \<Rightarrow> bool" where
  "job_frame dev dev' =
     (job_status dev' = job_status dev \<and>
      proto_op_current dev' = proto_op_current dev \<and>
      (read_queue dev = [] \<longrightarrow> read_queue dev' = []) \<and>
      (start_do_scheduled dev' \<longrightarrow> start_do_scheduled dev))"

section \<open>A concrete device, for evaluation\<close>

text \<open>
  A decoder of raw images, one gray pixel per line: the decoder state is the bytes
  not yet read. It stands for the JPEG decoder where a decoder has to be named.
\<close>

definition raw_decoder :: "SANE_Byte list image_decoder_ops" where
  "raw_decoder =
     \<lparr>image_decoder_begin = (\<lambda>dec bytes. (None, bytes)),
      image_decoder_get_params = (\<lambda>dec.
        \<lparr>format = SANE_FRAME_GRAY, last_frame = True, bytes_per_line = 1,
         pixels_per_line = 1, lines = int (length dec), depth = 8\<rparr>),
      image_decoder_get_bytes_per_pixel = (\<lambda>dec. 1),
      image_decoder_set_window = (\<lambda>dec win. (None, win, drop (nat (win_y_off win)) dec)),
      image_decoder_read_line = (\<lambda>dec. (None, take 1 dec, drop 1 dec)),
      image_decoder_reset = (\<lambda>dec. [])\<rparr>"

text \<open>A4 flatbed, 300 DPI reference resolution; a window of 1 x 2 pixels at 300 DPI.\<close>

definition a4_options :: devopt where
  "a4_options =
     \<lparr>caps_units = 300,
      caps_src = [Some \<lparr>min_wid_px = 1, max_wid_px = 2550,
                        min_hei_px = 1, max_hei_px = 3508\<rparr>, None, None],
      src = 0,
      colormode = 0,
      resolution = 300,
      tl_x = 0, tl_y = 0, br_x = 5549, br_y = 11098,
      params = \<lparr>format = SANE_FRAME_GRAY, last_frame = True, bytes_per_line = 1,
                pixels_per_line = 1, lines = 2, depth = 8\<rparr>\<rparr>"

definition scan_reply :: proto_result where
  "scan_reply =
     \<lparr>next_op = PROTO_OP_LOAD, delay = 0, status = SANE_STATUS_GOOD, err = None,
      location = Some ''/eSCL/ScanJobs/1'', image = None\<rparr>"

definition load_reply :: proto_result where
  "load_reply =
     \<lparr>next_op = PROTO_OP_LOAD, delay = 0, status = SANE_STATUS_GOOD, err = None,
      location = None, image = Some [0, 127]\<rparr>"

definition failed_reply :: proto_result where
  "failed_reply =
     \<lparr>next_op = PROTO_OP_FINISH, delay = 0, status = SANE_STATUS_GOOD,
      err = Some ''HTTP: 404 Not Found'', location = None, image = None\<rparr>"

definition new_device :: "SANE_Byte list device" where
  "new_device = device_add_new [] a4_options"

definition run_new :: "action list \<Rightarrow> SANE_Byte list device option" where
  "run_new acts = device_run raw_decoder new_device acts"

text \<open>A device added, probed and opened.\<close>

definition opened :: "action list" where
  "opened = [Capabilities_ok a4_options, Open (Some 1)]"

text \<open>The same, started, up to the submission of the scan request.\<close>

definition started :: "action list" where
  "started = opened @ [Start, Start_do, Start_woken_job]"

text \<open>The scanner has answered with the job location, then with a first image.\<close>

definition loading :: "action list" where
  "loading = started @ [Op_reply scan_reply, Op_reply load_reply]"


text \<open>The same job at the moment the hardware makes weak exchanges fail.\<close>

definition started_exchange_fails :: "action list" where
  "started_exchange_fails = started @ [Exchange_fails True]"

text \<open>The scan request fails, and the frontend switches to non-blocking mode.\<close>

definition failed_non_blocking :: "action list" where
  "failed_non_blocking = started @ [Op_reply failed_reply, Set_io_mode True]"

text \<open>The status a call returns, if it returns.\<close>

fun returned_status :: "(SANE_Status \<times> 'a, 'd) outcome option \<Rightarrow> SANE_Status option" where
  "returned_status (Some (Returned r d)) = Some (fst r)"
| "returned_status _ = None"

section \<open>Properties of the geometry computation\<close>

lemma int32_id: "- (2 ^ 31) \<le> x \<Longrightarrow> x < 2 ^ 31 \<Longrightarrow> int32 x = x"
  by (simp add: int32_def)

lemma round_div_nonneg: "0 \<le> n \<Longrightarrow> 0 < d \<Longrightarrow> 0 \<le> round_div n d"
  by (simp add: round_div_def pos_imp_zdiv_nonneg_iff)

lemma mm2px_nonneg: "0 \<le> mm \<Longrightarrow> 0 \<le> res \<Longrightarrow> 0 \<le> mm2px mm res"
  unfolding mm2px_def by (rule round_div_nonneg) simp_all

lemma math_mm2px_res_zero: "math_mm2px_res 0 res = 0"
  by (simp add: math_mm2px_res_def mm2px_def round_div_def int32_def)

lemma math_bound_range:
  "lo \<le> hi \<Longrightarrow> lo \<le> math_bound x lo hi \<and> math_bound x lo hi \<le> hi"
  by (simp add: math_bound_def)

lemma math_max_eq: "math_max a b = max a b"
  by (simp add: math_max_def max_def)

text \<open>
  The function in one piece, where the end of the requested window fits a C \<open>int\<close>:
  no operation wraps, and after the clipping the offset is \<open>maxlen - len\<close>.
\<close>

lemma device_geom_compute_eq:
  assumes "0 \<le> tl_mm" "1 \<le> maxlen" "minlen \<le> maxlen" "0 < units"
    and "requested_end tl_mm br_mm minlen maxlen units \<le> INT_MAX"
  shows "device_geom_compute tl_mm br_mm minlen maxlen res units =
     (let o0 = mm2px tl_mm units;
          l = math_bound (math_mm2px_res (int32 (br_mm - tl_mm)) units) (max minlen 1) maxlen
      in if o0 + l > maxlen
         then \<lparr>off = maxlen - l, len = l, skip = math_muldiv (o0 + l - maxlen) res units\<rparr>
         else \<lparr>off = o0, len = l, skip = 0\<rparr>)"
proof -
  define o0 where "o0 = mm2px tl_mm units"
  define l where
    "l = math_bound (math_mm2px_res (int32 (br_mm - tl_mm)) units) (max minlen 1) maxlen"
  have o0: "0 \<le> o0"
    unfolding o0_def using assms by (intro mm2px_nonneg) simp_all
  have "max minlen 1 \<le> maxlen" using assms by simp
  from math_bound_range[OF this] have l: "1 \<le> l" "l \<le> maxlen"
    unfolding l_def by simp_all
  have fits: "o0 + l < 2 ^ 31"
    using assms(5) by (simp add: requested_end_def INT_MAX_def o0_def l_def math_max_eq)
  have off: "math_mm2px_res tl_mm units = o0"
    unfolding math_mm2px_res_def o0_def[symmetric] using o0 l fits by (intro int32_id) simp_all
  have sum: "int32 (o0 + l) = o0 + l"
    using o0 l fits by (intro int32_id) simp_all
  have excess: "int32 (o0 + l - maxlen) = o0 + l - maxlen" if "maxlen < o0 + l"
    using that o0 l fits by (intro int32_id) simp_all
  have clipped: "int32 (o0 - (o0 + l - maxlen)) = maxlen - l" if "maxlen < o0 + l"
  proof -
    have "int32 (maxlen - l) = maxlen - l"
      using that o0 l fits by (intro int32_id) simp_all
    then show ?thesis by (simp add: algebra_simps)
  qed
  show ?thesis
    unfolding device_geom_compute_def math_max_eq Let_def off l_def[symmetric]
      o0_def[symmetric]
    using excess clipped by (simp add: sum)
qed

text \<open>
  Claim C1, as amended. For every well-formed input (\<open>0 \<le> tl \<le> br\<close>, \<open>maxlen \<ge> 1\<close>,
  \<open>maxlen \<ge> minlen\<close>, \<open>res > 0\<close>, \<open>units > 0\<close>) for which the end of the requested
  window, \<open>off + len\<close> before the clipping, does not exceed \<open>INT_MAX\<close>, the geometry
  computation returns an offset that is not negative, a window that ends within
  \<open>maxlen\<close>, and a length between \<open>max(minlen, 1)\<close> and \<open>maxlen\<close>; a second call on
  the same input returns the same triple.
\<close>

theorem device_geom_compute_bounds:
  assumes "0 \<le> tl_mm" "tl_mm \<le> br_mm" "1 \<le> maxlen" "minlen \<le> maxlen" "0 < res" "0 < units"
    and "requested_end tl_mm br_mm minlen maxlen units \<le> INT_MAX"
  shows "let g = device_geom_compute tl_mm br_mm minlen maxlen res units;
             g' = device_geom_compute tl_mm br_mm minlen maxlen res units
         in 0 \<le> off g \<and> off g + len g \<le> maxlen \<and>
            max minlen 1 \<le> len g \<and> len g \<le> maxlen \<and> g' = g"
proof -
  define o0 where "o0 = mm2px tl_mm units"
  define l where
    "l = math_bound (math_mm2px_res (int32 (br_mm - tl_mm)) units) (max minlen 1) maxlen"
  have o0: "0 \<le> o0"
    unfolding o0_def using assms by (intro mm2px_nonneg) simp_all
  have "max minlen 1 \<le> maxlen" using assms by simp
  from math_bound_range[OF this] have l: "max minlen 1 \<le> l" "l \<le> maxlen"
    unfolding l_def by simp_all
  have g: "device_geom_compute tl_mm br_mm minlen maxlen res units =
      (if o0 + l > maxlen
       then \<lparr>off = maxlen - l, len = l, skip = math_muldiv (o0 + l - maxlen) res units\<rparr>
       else \<lparr>off = o0, len = l, skip = 0\<rparr>)"
    using device_geom_compute_eq[OF assms(1,3,4,6,7), of res]
    by (simp add: Let_def o0_def l_def)
  show ?thesis using o0 l by (simp add: g Let_def)
qed

text \<open>An A4 width of 210 mm on a scanner 2550 pixels wide, at 300 DPI.\<close>

theorem device_geom_compute_bounds_witness:
  "requested_end 0 13762560 1 2550 300 = 2480 \<and>
   off (device_geom_compute 0 13762560 1 2550 300 300) = 0 \<and>
   len (device_geom_compute 0 13762560 1 2550 300 300) = 2480 \<and>
   off (device_geom_compute 0 13762560 1 2550 300 300) +
     len (device_geom_compute 0 13762560 1 2550 300 300) \<le> 2550"
  using device_geom_compute_bounds[of 0 13762560 2550 1 300 300]
  by (simp add: Let_def device_geom_compute_def requested_end_def INT_MAX_def
      math_mm2px_res_def mm2px_def round_div_def int32_def math_bound_def math_max_def)

text \<open>
  A window that starts at 254 mm (3000 pixels at 300 DPI) on a device whose minimal
  length is 2147483000 pixels: every hypothesis of the claim holds, the sum
  \<open>3000 + 2147483000\<close> does not fit a C \<open>int\<close> and wraps to \<open>-2147481296\<close>, the
  test \<open>off + len > maxlen\<close> fails, nothing is clipped, and the window returned ends
  beyond \<open>maxlen\<close>.
\<close>

theorem device_geom_compute_bounds_counterexample:
  "(0::int) \<le> 16646144 \<and> (16646144::int) \<le> 16646144 \<and> (1::int) \<le> 2147483647 \<and>
   (2147483000::int) \<le> 2147483647 \<and> (0::int) < 300 \<and>
   int32 (3000 + 2147483000) = - 2147481296 \<and>
   device_geom_compute 16646144 16646144 2147483000 2147483647 300 300
     = \<lparr>off = 3000, len = 2147483000, skip = 0\<rparr> \<and>
   off (device_geom_compute 16646144 16646144 2147483000 2147483647 300 300) +
     len (device_geom_compute 16646144 16646144 2147483000 2147483647 300 300) > 2147483647"
  by (simp add: Let_def device_geom_compute_def math_mm2px_res_def mm2px_def round_div_def
      int32_def math_bound_def math_max_def)

text \<open>
  Claim C2, as amended. For every well-formed input with \<open>br = tl\<close> for which the end
  of the requested window does not exceed \<open>INT_MAX\<close>, the length is \<open>max(minlen, 1)\<close>
  and the offset is the requested one clipped into \<open>[0, maxlen - len]\<close>. The returned
  skip is the excess of the requested window over \<open>maxlen\<close> converted by
  \<open>math_muldiv\<close> to pixels at the actual resolution, and 0 when there is no excess:
  it is not zero only if the window exceeded \<open>maxlen\<close>.
\<close>

theorem device_geom_compute_empty_window:
  assumes "0 \<le> tl_mm" "br_mm = tl_mm" "1 \<le> maxlen" "minlen \<le> maxlen" "0 < res" "0 < units"
    and "requested_end tl_mm br_mm minlen maxlen units \<le> INT_MAX"
  shows "let g = device_geom_compute tl_mm br_mm minlen maxlen res units;
             off0 = math_mm2px_res tl_mm units;
             excess = off0 + max minlen 1 - maxlen
         in len g = max minlen 1 \<and>
            off g = min off0 (maxlen - len g) \<and> 0 \<le> off g \<and> off g \<le> maxlen - len g \<and>
            skip g = (if 0 < excess then math_muldiv excess res units else 0) \<and>
            (skip g \<noteq> 0 \<longrightarrow> off0 + max minlen 1 > maxlen)"
proof -
  define o0 where "o0 = mm2px tl_mm units"
  define l where "l = max minlen 1"
  define e where "e = o0 + l - maxlen"
  have o0: "0 \<le> o0"
    unfolding o0_def using assms by (intro mm2px_nonneg) simp_all
  have l1: "1 \<le> l" "l \<le> maxlen"
    using assms by (simp_all add: l_def)
  then have l: "math_bound (math_mm2px_res (int32 (br_mm - tl_mm)) units) (max minlen 1) maxlen
      = l"
    using assms
    by (simp add: int32_def math_mm2px_res_zero math_bound_def l_def[symmetric])
  have "o0 + l < 2 ^ 31"
    using assms(7) l by (simp add: requested_end_def INT_MAX_def o0_def math_max_eq)
  then have off0: "math_mm2px_res tl_mm units = o0"
    unfolding math_mm2px_res_def o0_def[symmetric] using o0 l1 by (intro int32_id) simp_all
  have g: "device_geom_compute tl_mm br_mm minlen maxlen res units =
      (if 0 < e then \<lparr>off = maxlen - l, len = l, skip = math_muldiv e res units\<rparr>
       else \<lparr>off = o0, len = l, skip = 0\<rparr>)"
    using device_geom_compute_eq[OF assms(1,3,4,6,7), of res]
    by (simp add: Let_def o0_def[symmetric] l e_def)
  show ?thesis
    using o0 l1
    by (simp add: g Let_def off0 l_def[symmetric] e_def[symmetric])
      (auto simp: e_def)
qed

text \<open>
  An empty window at the far edge, 254 mm (3000 pixels at 300 DPI) on a scanner 3000
  pixels wide: at 300 DPI one pixel is skipped.
\<close>

theorem device_geom_compute_empty_window_witness:
  "requested_end 16646144 16646144 1 3000 300 = 3001 \<and>
   len (device_geom_compute 16646144 16646144 1 3000 300 300) = 1 \<and>
   off (device_geom_compute 16646144 16646144 1 3000 300 300) = 2999 \<and>
   skip (device_geom_compute 16646144 16646144 1 3000 300 300) = 1"
  using device_geom_compute_empty_window[of 16646144 16646144 3000 1 300 300]
  by (simp add: Let_def requested_end_def INT_MAX_def math_mm2px_res_def mm2px_def
      round_div_def int32_def math_bound_def math_max_def math_muldiv_def c_div_def)

text \<open>
  Two empty windows at 254 mm (3000 pixels at 300 DPI). On a device whose minimal
  length is 2147483000 pixels the sum \<open>off + len\<close> wraps, nothing is clipped, and the
  offset returned, 3000, is beyond \<open>maxlen - len = 647\<close>; the requested window
  exceeded \<open>maxlen\<close>, and the skip is 0. On a scanner 3000 pixels wide scanned at 75
  DPI the requested window, 3000 + 1 pixels, exceeds \<open>maxlen\<close> as well, and the skip
  is \<open>1 * 75 / 300 = 0\<close> (to the nearest integer too).
\<close>

theorem device_geom_compute_empty_window_counterexample:
  "off (device_geom_compute 16646144 16646144 2147483000 2147483647 300 300) = 3000 \<and>
   len (device_geom_compute 16646144 16646144 2147483000 2147483647 300 300) = 2147483000 \<and>
   skip (device_geom_compute 16646144 16646144 2147483000 2147483647 300 300) = 0 \<and>
   requested_end 16646144 16646144 2147483000 2147483647 300 > 2147483647 \<and>
   requested_end 16646144 16646144 1 3000 300 > 3000 \<and>
   skip (device_geom_compute 16646144 16646144 1 3000 75 300) = 0 \<and>
   round_div (1 * 75) 300 = 0"
  by (simp add: Let_def device_geom_compute_def requested_end_def math_mm2px_res_def
      mm2px_def round_div_def int32_def math_bound_def math_max_def math_muldiv_def c_div_def)

section \<open>Properties of the job status and the state machine\<close>

lemma emit_simps [simp]:
  "job_status (emit c dev) = job_status dev"
  "read_queue (emit c dev) = read_queue dev"
  "stm_state (emit c dev) = stm_state dev"
  "job_images_received (emit c dev) = job_images_received dev"
  "proto_op_current (emit c dev) = proto_op_current dev"
  "proto_ctx_location (emit c dev) = proto_ctx_location dev"
  "calls (emit c dev) = calls dev @ [c]"
  by (simp_all add: emit_def)

lemma device_stm_state_set_simps [simp]:
  "stm_state (device_stm_state_set dev s) = s"
  "job_status (device_stm_state_set dev s) = job_status dev"
  "read_queue (device_stm_state_set dev s) = read_queue dev"
  "job_images_received (device_stm_state_set dev s) = job_images_received dev"
  "proto_op_current (device_stm_state_set dev s) = proto_op_current dev"
  "proto_ctx_location (device_stm_state_set dev s) = proto_ctx_location dev"
  by (simp_all add: device_stm_state_set_def Let_def)

lemma device_job_set_status_simps [simp]:
  "stm_state (device_job_set_status dev st) = stm_state dev"
  "job_images_received (device_job_set_status dev st) = job_images_received dev"
  "proto_op_current (device_job_set_status dev st) = proto_op_current dev"
  "proto_ctx_location (device_job_set_status dev st) = proto_ctx_location dev"
  "calls (device_job_set_status dev st) = calls dev"
  by (simp_all add: device_job_set_status_def Let_def)

lemma device_http_cancel_simps [simp]:
  "stm_state (device_http_cancel dev) = stm_state dev"
  "job_status (device_http_cancel dev) = job_status dev"
  "read_queue (device_http_cancel dev) = read_queue dev"
  "job_images_received (device_http_cancel dev) = job_images_received dev"
  "proto_op_current (device_http_cancel dev) = proto_op_current dev"
  "proto_ctx_location (device_http_cancel dev) = proto_ctx_location dev"
  "http_timer (device_http_cancel dev) = None"
  by (simp_all add: device_http_cancel_def Let_def emit_def split: option.splits)

lemma device_http_cancel_calls:
  "\<exists>more. calls (device_http_cancel dev) = calls dev @ Http_client_cancel # more"
  by (simp add: device_http_cancel_def Let_def emit_def split: option.splits)

lemma device_stm_state_set_calls:
  "\<exists>more. calls (device_stm_state_set dev s) = calls dev @ more"
  by (simp add: device_stm_state_set_def Let_def emit_def)

text \<open>
  Claim C5 (the code differs). A cancel request (\<open>device_cancel\<close>, that is
  \<open>device_stm_cancel_req\<close>) moves the state to \<open>DEVICE_STM_CANCEL_REQ\<close> and
  triggers the cancel event only if the state is \<open>DEVICE_STM_SCANNING\<close>; in any
  other state it changes nothing and triggers nothing. In the state
  \<open>DEVICE_STM_SCANNING\<close> it does so unless the exchange fails spuriously: the
  exchange is weak and is not retried, so the request is then lost. A started job on
  hardware that makes the exchange fail: the state is \<open>DEVICE_STM_SCANNING\<close>, and
  the cancel request leaves the device as it is.
\<close>

theorem device_cancel_weak_exchange:
  "device_cancel dev =
     (if stm_state dev = DEVICE_STM_SCANNING \<and> \<not> exchange_fails dev
      then emit (Eloop_event_trigger (stm_cancel_event dev))
             (dev\<lparr>stm_state := DEVICE_STM_CANCEL_REQ\<rparr>)
      else dev) \<and>
   device_stm_cancel_req dev = device_cancel dev \<and>
   run_new started_exchange_fails \<noteq> None \<and>
   stm_state (the (run_new started_exchange_fails)) = DEVICE_STM_SCANNING \<and>
   device_cancel (the (run_new started_exchange_fails))
     = the (run_new started_exchange_fails) \<and>
   run_new (started_exchange_fails @ [Cancel]) = run_new started_exchange_fails"
proof (intro conjI)
  show "device_cancel dev =
     (if stm_state dev = DEVICE_STM_SCANNING \<and> \<not> exchange_fails dev
      then emit (Eloop_event_trigger (stm_cancel_event dev))
             (dev\<lparr>stm_state := DEVICE_STM_CANCEL_REQ\<rparr>)
      else dev)"
    by (simp add: device_cancel_def device_stm_cancel_req_def Let_def emit_def)
  show "device_stm_cancel_req dev = device_cancel dev"
    by (simp add: device_cancel_def)
  show "run_new started_exchange_fails \<noteq> None"
    by code_simp
  show "stm_state (the (run_new started_exchange_fails)) = DEVICE_STM_SCANNING"
    by code_simp
  show "device_cancel (the (run_new started_exchange_fails))
     = the (run_new started_exchange_fails)"
    by code_simp
  show "run_new (started_exchange_fails @ [Cancel]) = run_new started_exchange_fails"
    by code_simp
qed

text \<open>
  Claim C6. When the decoded result of an operation has \<open>next = PROTO_OP_FINISH\<close>, the
  callback returns with the state \<open>DEVICE_STM_DONE\<close>. The job status is then
  \<open>SANE_STATUS_IO_ERROR\<close> if, at that point (the result saved and its status
  applied), no image has been received and the job status is good; a job status that
  is not good at that point, \<open>SANE_STATUS_CANCELLED\<close> included, is kept.
\<close>

theorem device_stm_op_callback_finish:
  assumes "device_proto_op_decode dev (proto_op_current dev) reply = Inr result"
    and "next_op result = PROTO_OP_FINISH"
  shows "\<exists>dev'. device_stm_op_callback dev reply = Inr dev' \<and>
           stm_state dev' = DEVICE_STM_DONE \<and>
           job_status dev' =
             (let at_finish =
                    device_job_set_status (device_stm_op_save dev result) (status result)
              in if job_images_received at_finish = 0 \<and>
                    job_status at_finish = SANE_STATUS_GOOD
                 then SANE_STATUS_IO_ERROR else job_status at_finish)"
  using assms
  by (simp add: device_stm_op_callback_def Let_def)
     (simp add: device_job_set_status_def Let_def)

text \<open>The scan request of a started device fails: the job ends with an I/O error.\<close>

theorem device_stm_op_callback_finish_witness:
  "next_op failed_reply = PROTO_OP_FINISH \<and>
   (\<exists>dev'. device_stm_op_callback (the (run_new started)) failed_reply = Inr dev' \<and>
      stm_state dev' = DEVICE_STM_DONE \<and> job_status dev' = SANE_STATUS_IO_ERROR)"
proof -
  let ?d = "the (run_new started)"
  have dec: "device_proto_op_decode ?d (proto_op_current ?d) failed_reply = Inr failed_reply"
    by code_simp
  have fin: "next_op failed_reply = PROTO_OP_FINISH"
    by code_simp
  have st: "(let at_finish =
                device_job_set_status (device_stm_op_save ?d failed_reply) (status failed_reply)
             in if job_images_received at_finish = 0 \<and> job_status at_finish = SANE_STATUS_GOOD
                then SANE_STATUS_IO_ERROR else job_status at_finish) = SANE_STATUS_IO_ERROR"
    by code_simp
  from device_stm_op_callback_finish[OF dec fin] st fin show ?thesis by auto
qed

lemma device_stm_cancel_perform_located:
  assumes "proto_ctx_location dev \<noteq> None"
  shows "\<exists>dev' more. device_stm_cancel_perform dev = Inr (True, dev') \<and>
           stm_state dev' = DEVICE_STM_CANCELLING \<and>
           job_status dev' = SANE_STATUS_CANCELLED \<and>
           proto_op_current dev' = PROTO_OP_CANCEL \<and>
           http_timer dev' = None \<and>
           calls dev' = calls dev @ Http_client_cancel # more @ [Http_query_submit PROTO_OP_CANCEL]"
proof -
  obtain m1 where m1: "calls (device_http_cancel dev) = calls dev @ Http_client_cancel # m1"
    using device_http_cancel_calls by blast
  obtain m2 where m2:
    "calls (device_stm_state_set (device_http_cancel dev) DEVICE_STM_CANCELLING)
       = calls (device_http_cancel dev) @ m2"
    using device_stm_state_set_calls by blast
  have http:
    "http_timer (device_stm_state_set (device_http_cancel dev) DEVICE_STM_CANCELLING) = None"
    by (simp add: device_stm_state_set_def Let_def emit_def)
  show ?thesis
    using assms m1 m2 http
    by (simp add: device_stm_cancel_perform_def Let_def device_proto_op_submit_def)
       (simp add: device_job_set_status_def Let_def emit_def)
qed

text \<open>
  Claim C7, as amended. On an HTTP transport error the callback offers
  \<open>SANE_STATUS_IO_ERROR\<close> to \<open>device_job_set_status\<close>, which takes it only if no
  image has been received and the job status is good. If a job location exists, the
  HTTP activity is cancelled, the state becomes \<open>DEVICE_STM_CANCELLING\<close>, a
  \<open>PROTO_OP_CANCEL\<close> is submitted, and the job status ends as
  \<open>SANE_STATUS_CANCELLED\<close>. If none exists, the state becomes \<open>DEVICE_STM_DONE\<close>,
  and the job status is \<open>SANE_STATUS_IO_ERROR\<close> when no image had been received
  and it was good, and unchanged otherwise.
\<close>

theorem device_http_onerror_effect:
  "(proto_ctx_location dev \<noteq> None \<longrightarrow>
      (\<exists>dev' more. device_http_onerror dev = Inr dev' \<and>
         stm_state dev' = DEVICE_STM_CANCELLING \<and>
         job_status dev' = SANE_STATUS_CANCELLED \<and>
         proto_op_current dev' = PROTO_OP_CANCEL \<and>
         calls dev' =
           calls dev @ Http_client_cancel # more @ [Http_query_submit PROTO_OP_CANCEL])) \<and>
   (proto_ctx_location dev = None \<longrightarrow>
      (\<exists>dev'. device_http_onerror dev = Inr dev' \<and>
         stm_state dev' = DEVICE_STM_DONE \<and>
         job_status dev' =
           (if job_images_received dev = 0 \<and> job_status dev = SANE_STATUS_GOOD
            then SANE_STATUS_IO_ERROR else job_status dev) \<and>
         read_queue dev' = read_queue dev \<and>
         proto_op_current dev' = proto_op_current dev))"
proof (intro conjI impI)
  assume loc: "proto_ctx_location dev \<noteq> None"
  let ?d = "device_job_set_status dev SANE_STATUS_IO_ERROR"
  from loc have "proto_ctx_location ?d \<noteq> None" by simp
  from device_stm_cancel_perform_located[OF this]
  show "\<exists>dev' more. device_http_onerror dev = Inr dev' \<and>
         stm_state dev' = DEVICE_STM_CANCELLING \<and>
         job_status dev' = SANE_STATUS_CANCELLED \<and>
         proto_op_current dev' = PROTO_OP_CANCEL \<and>
         calls dev' =
           calls dev @ Http_client_cancel # more @ [Http_query_submit PROTO_OP_CANCEL]"
    by (auto simp: device_http_onerror_def Let_def)
next
  assume "proto_ctx_location dev = None"
  then show "\<exists>dev'. device_http_onerror dev = Inr dev' \<and>
         stm_state dev' = DEVICE_STM_DONE \<and>
         job_status dev' =
           (if job_images_received dev = 0 \<and> job_status dev = SANE_STATUS_GOOD
            then SANE_STATUS_IO_ERROR else job_status dev) \<and>
         read_queue dev' = read_queue dev \<and>
         proto_op_current dev' = proto_op_current dev"
    by (simp add: device_http_onerror_def Let_def device_stm_cancel_perform_def)
       (simp add: device_job_set_status_def Let_def word_gt_0)
qed

text \<open>
  A transport error while the scan request is in flight (no location yet), and one
  while the second image is loaded (the location is known).
\<close>

theorem device_http_onerror_effect_witness:
  "proto_ctx_location (the (run_new started)) = None \<and>
   (\<exists>dev'. device_http_onerror (the (run_new started)) = Inr dev' \<and>
      stm_state dev' = DEVICE_STM_DONE \<and> job_status dev' = SANE_STATUS_IO_ERROR) \<and>
   proto_ctx_location (the (run_new loading)) \<noteq> None \<and>
   (\<exists>dev'. device_http_onerror (the (run_new loading)) = Inr dev' \<and>
      stm_state dev' = DEVICE_STM_CANCELLING \<and> job_status dev' = SANE_STATUS_CANCELLED)"
proof -
  have a: "proto_ctx_location (the (run_new started)) = None"
    by code_simp
  have a': "job_images_received (the (run_new started)) = 0 \<and>
      job_status (the (run_new started)) = SANE_STATUS_GOOD"
    by code_simp
  have b: "proto_ctx_location (the (run_new loading)) \<noteq> None"
    by code_simp
  from device_http_onerror_effect[of "the (run_new started)"] a a'
  have 1: "\<exists>dev'. device_http_onerror (the (run_new started)) = Inr dev' \<and>
      stm_state dev' = DEVICE_STM_DONE \<and> job_status dev' = SANE_STATUS_IO_ERROR"
    by auto
  from device_http_onerror_effect[of "the (run_new loading)"] b
  have 2: "\<exists>dev'. device_http_onerror (the (run_new loading)) = Inr dev' \<and>
      stm_state dev' = DEVICE_STM_CANCELLING \<and> job_status dev' = SANE_STATUS_CANCELLED"
    by blast
  from a b 1 2 show ?thesis by blast
qed

text \<open>
  A transport error after the first image: \<open>SANE_STATUS_IO_ERROR\<close> is not taken (an
  image has been received), and the job status ends as \<open>SANE_STATUS_CANCELLED\<close>.
\<close>

theorem device_http_onerror_counterexample:
  "run_new (loading @ [Http_error]) \<noteq> None \<and>
   job_status (the (run_new loading)) = SANE_STATUS_GOOD \<and>
   job_status (device_job_set_status (the (run_new loading)) SANE_STATUS_IO_ERROR)
     = SANE_STATUS_GOOD \<and>
   job_status (the (run_new (loading @ [Http_error]))) = SANE_STATUS_CANCELLED"
  by code_simp

section \<open>Properties of the frontend API\<close>

text \<open>
  Claim C8, as amended. With the \<open>DEVICE_READING\<close> flag set, no image being decoded
  and an empty queue, a read in non-blocking mode returns \<open>SANE_STATUS_GOOD\<close> with
  0 bytes, the device untouched, provided that the state machine is in a working
  state.
\<close>

theorem device_read_non_blocking:
  assumes "flags dev AND DEVICE_READING \<noteq> 0"
    and "read_image dev = None"
    and "read_queue dev = []"
    and "read_non_blocking dev"
    and "device_stm_state_working dev"
  shows "device_read ops dev data max_len (Some v)
           = Some (Returned (SANE_STATUS_GOOD, 0, data) dev)"
  using assms by (simp add: device_read_def device_read_wait_def)

text \<open>A started device in non-blocking mode, before any reply.\<close>

theorem device_read_non_blocking_witness:
  "device_stm_state_working (the (run_new (started @ [Set_io_mode True]))) \<and>
   device_read raw_decoder (the (run_new (started @ [Set_io_mode True]))) [0, 0, 0, 0] 4 (Some 7)
     = Some (Returned (SANE_STATUS_GOOD, 0, [0, 0, 0, 0])
              (the (run_new (started @ [Set_io_mode True]))))"
proof -
  let ?d = "the (run_new (started @ [Set_io_mode True]))"
  have 1: "flags ?d AND DEVICE_READING \<noteq> 0" by code_simp
  have 2: "read_image ?d = None" by code_simp
  have 3: "read_queue ?d = []" by code_simp
  have 4: "read_non_blocking ?d" by code_simp
  have 5: "device_stm_state_working ?d" by code_simp
  from device_read_non_blocking[OF 1 2 3 4 5] 5 show ?thesis by simp
qed

text \<open>
  The scan request has failed: the state is \<open>DEVICE_STM_DONE\<close>, the flag is set, no
  image is being decoded, the queue is empty and the mode is non-blocking. The read
  returns the job status, \<open>SANE_STATUS_IO_ERROR\<close>.
\<close>

theorem device_read_non_blocking_counterexample:
  "run_new failed_non_blocking \<noteq> None \<and>
   flags (the (run_new failed_non_blocking)) AND DEVICE_READING \<noteq> 0 \<and>
   read_image (the (run_new failed_non_blocking)) = None \<and>
   read_queue (the (run_new failed_non_blocking)) = [] \<and>
   read_non_blocking (the (run_new failed_non_blocking)) \<and>
   stm_state (the (run_new failed_non_blocking)) = DEVICE_STM_DONE \<and>
   returned_status
     (device_read raw_decoder (the (run_new failed_non_blocking)) [0, 0, 0, 0] 4 (Some 7))
     = Some SANE_STATUS_IO_ERROR"
  by code_simp

text \<open>
  Claim C9 (the code differs). With a NULL \<open>len_out\<close> the function does not return
  \<open>SANE_STATUS_INVAL\<close>: its first statement, \<open>*len_out = 0\<close>, stores through the
  pointer before the check \<open>len_out == NULL\<close> is reached.
\<close>

theorem device_read_null_len_out:
  "device_read ops dev data max_len None = Some (Crashed Null_dereference)"
  by (simp add: device_read_def)

lemma device_close_finish_closed:
  "device_close_finish dev = Returned () dev' \<Longrightarrow> stm_state dev' = DEVICE_STM_CLOSED"
  by (auto simp: device_close_finish_def Let_def device_unref_def emit_def
      split: sum.splits if_splits)

text \<open>
  Claim C10. \<open>device_close\<close> on a device whose state is \<open>DEVICE_STM_CLOSED\<close> returns
  with the device as it was: no field changes, the cancel event is not freed, the
  reference count stays. Hence a close that follows a close that returned (with the
  descriptor not released) changes nothing.
\<close>

theorem device_close_closed:
  "(stm_state dev = DEVICE_STM_CLOSED \<longrightarrow> device_close dev = Returned () dev) \<and>
   (\<forall>dev'. device_close dev = Returned () dev' \<and> Device_destroyed \<notin> set (calls dev') \<longrightarrow>
      device_close dev' = Returned () dev')"
proof (intro conjI impI allI)
  assume "stm_state dev = DEVICE_STM_CLOSED"
  then show "device_close dev = Returned () dev"
    by (simp add: device_close_def device_stm_state_get_def)
next
  fix dev'
  assume a: "device_close dev = Returned () dev' \<and> Device_destroyed \<notin> set (calls dev')"
  then have "stm_state dev' = DEVICE_STM_CLOSED"
    by (auto simp: device_close_def device_stm_state_get_def device_stm_cancel_wait_def
        device_stm_wait_while_working_def dest: device_close_finish_closed
        split: if_splits outcome.splits)
  then show "device_close dev' = Returned () dev'"
    by (simp add: device_close_def device_stm_state_get_def)
qed

text \<open>A device never opened, and a device opened and closed.\<close>

theorem device_close_closed_witness:
  "stm_state new_device = DEVICE_STM_CLOSED \<and>
   device_close new_device = Returned () new_device \<and>
   device_close (the (run_new opened)) = Returned () (the (run_new (opened @ [Close]))) \<and>
   Device_destroyed \<notin> set (calls (the (run_new (opened @ [Close])))) \<and>
   device_close (the (run_new (opened @ [Close])))
     = Returned () (the (run_new (opened @ [Close])))"
proof -
  have 1: "stm_state new_device = DEVICE_STM_CLOSED" by code_simp
  have 2: "device_close (the (run_new opened)) = Returned () (the (run_new (opened @ [Close])))"
    by code_simp
  have 3: "Device_destroyed \<notin> set (calls (the (run_new (opened @ [Close]))))"
    by code_simp
  from device_close_closed[of new_device] 1
  have 4: "device_close new_device = Returned () new_device" by blast
  from device_close_closed[of "the (run_new opened)"] 2 3
  have 5: "device_close (the (run_new (opened @ [Close])))
     = Returned () (the (run_new (opened @ [Close])))" by blast
  from 1 2 3 4 5 show ?thesis by blast
qed

section \<open>The job status and the queue of images along the runs of a device\<close>



lemma job_frame_refl [simp]: "job_frame dev dev"
  by (simp add: job_frame_def)




lemma frame_emit:
  "c \<noteq> Eloop_call_device_start_do \<Longrightarrow> job_frame dev (emit c dev)"
  by (simp add: job_frame_def start_do_scheduled_def)


lemma frame_http_cancel: "job_frame dev (device_http_cancel dev)"
  by (simp add: job_frame_def start_do_scheduled_def device_http_cancel_def Let_def emit_def
      split: option.splits)


lemma frame_unref: "device_unref dev = Inr dev' \<Longrightarrow> job_frame dev dev'"
  by (auto simp: job_frame_def start_do_scheduled_def device_unref_def Let_def emit_def
      split: if_splits)






lemma device_job_set_status_good [simp]: "device_job_set_status dev SANE_STATUS_GOOD = dev"
  by (simp add: device_job_set_status_def)




lemma settled_submit_cancel:
  assumes "cancelled_settled dev" and "device_proto_op_submit dev PROTO_OP_CANCEL = Inr dev'"
  shows "cancelled_settled dev'"
  using assms
  by (auto simp: device_proto_op_submit_def cancelled_settled_def start_do_scheduled_def)

























end
